theory Spec2Isabelle
  imports Complex_Main "HOL-Library.Sublist"
begin

section \<open>Python values used by the verifier\<close>

text \<open>
  The program is \<^verbatim>\<open>harmony_multi_branch_verifier.py\<close>. Its functions are embedded
  under the names they have in the source, without the leading underscore, which an
  Isabelle name cannot start with.

  A Python \<^verbatim>\<open>str\<close> is a sequence of code points, and \<^verbatim>\<open>len\<close>, \<^verbatim>\<open>in\<close>,
  \<^verbatim>\<open>lower\<close>, \<^verbatim>\<open>strip\<close> and \<^verbatim>\<open>re\<close> work on code points. Here a \<^verbatim>\<open>str\<close> is a
  \<^typ>\<open>string\<close> whose characters are the code points below 256 (Latin-1); text with
  higher code points is outside the model. A code point from 128 on takes two bytes in
  UTF-8, so the length of a text and the length of its encoding already differ here.
\<close>

definition newline :: char where
  "newline = CHR 0x0A"

text \<open>\<^verbatim>\<open>str.isspace\<close> on the code points below 256.\<close>

definition py_isspace :: "char \<Rightarrow> bool" where
  "py_isspace c =
     (let n = (of_char c :: nat)
      in (9 \<le> n \<and> n \<le> 13) \<or> (28 \<le> n \<and> n \<le> 32) \<or> n = 133 \<or> n = 160)"

text \<open>\<^verbatim>\<open>s.strip()\<close>: white space removed at both ends.\<close>

definition py_strip :: "string \<Rightarrow> string" where
  "py_strip s = rev (dropWhile py_isspace (rev (dropWhile py_isspace s)))"

text \<open>\<^verbatim>\<open>s.split("\n")\<close>: always at least one piece.\<close>

fun py_split_nl :: "string \<Rightarrow> string list" where
  "py_split_nl [] = [[]]"
| "py_split_nl (c # cs) =
     (if c = newline then [] # py_split_nl cs
      else (case py_split_nl cs of [] \<Rightarrow> [[c]] | l # ls \<Rightarrow> (c # l) # ls))"

text \<open>\<^verbatim>\<open>s.lower()\<close> on the code points below 256: A to Z, and 0xC0 to 0xDE but 0xD7.\<close>

definition py_lower_char :: "char \<Rightarrow> char" where
  "py_lower_char c =
     (let n = (of_char c :: nat)
      in if (65 \<le> n \<and> n \<le> 90) \<or> (192 \<le> n \<and> n \<le> 222 \<and> n \<noteq> 215)
         then char_of (n + 32) else c)"

definition py_lower :: "string \<Rightarrow> string" where
  "py_lower s = map py_lower_char s"

text \<open>
  \<^verbatim>\<open>sub in s\<close> on two strings is \<^term>\<open>sublist sub s\<close>: \<open>s\<close> has \<open>sub\<close> as a
  contiguous part.

  \<^verbatim>\<open>s.encode("utf-8")\<close>, to speak about the byte length of a text.
\<close>

definition utf8_encode :: "string \<Rightarrow> nat list" where
  "utf8_encode s =
     concat (map (\<lambda>c. let n = (of_char c :: nat)
                      in if n < 128 then [n] else [192 + n div 64, 128 + n mod 64]) s)"

subsection \<open>Parsed JSON\<close>

text \<open>
  What \<^verbatim>\<open>json.loads\<close> and \<^verbatim>\<open>response.json()\<close> return. A Python \<^verbatim>\<open>dict\<close> keeps
  its keys in insertion order and has each key once: an object is an association list,
  and \<open>wf_json\<close> says that its keys are distinct.
\<close>

datatype json =
    JNull
  | JBool bool
  | JInt int
  | JFloat real
  | JStr string
  | JArr "json list"
  | JObj "(string \<times> json) list"

fun wf_json :: "json \<Rightarrow> bool" where
  "wf_json (JArr xs) = (\<forall>x \<in> set xs. wf_json x)"
| "wf_json (JObj kvs) = (distinct (map fst kvs) \<and> (\<forall>v \<in> set (map snd kvs). wf_json v))"
| "wf_json _ = True"

datatype py_exn =
    TypeError
  | AttributeError
  | KeyError
  | StopIteration
  | Base64Error
  | UnicodeDecodeError

text \<open>\<^verbatim>\<open>not x\<close>.\<close>

fun py_falsy :: "json \<Rightarrow> bool" where
  "py_falsy JNull = True"
| "py_falsy (JBool b) = (\<not> b)"
| "py_falsy (JInt i) = (i = 0)"
| "py_falsy (JFloat r) = (r = 0)"
| "py_falsy (JStr s) = (s = [])"
| "py_falsy (JArr xs) = (xs = [])"
| "py_falsy (JObj kvs) = (kvs = [])"

text \<open>\<^verbatim>\<open>len(x)\<close>: a TypeError on a value that has no length.\<close>

fun py_len :: "json \<Rightarrow> py_exn + nat" where
  "py_len (JStr s) = Inr (length s)"
| "py_len (JArr xs) = Inr (length xs)"
| "py_len (JObj kvs) = Inr (length kvs)"
| "py_len _ = Inl TypeError"

text \<open>\<^verbatim>\<open>for x in v\<close>: the characters of a string, the elements of a list, the keys of a dict.\<close>

fun py_iter :: "json \<Rightarrow> py_exn + json list" where
  "py_iter (JStr s) = Inr (map (\<lambda>c. JStr [c]) s)"
| "py_iter (JArr xs) = Inr xs"
| "py_iter (JObj kvs) = Inr (map (\<lambda>kv. JStr (fst kv)) kvs)"
| "py_iter _ = Inl TypeError"

text \<open>\<^verbatim>\<open>k in v\<close> for a string \<open>k\<close>: part of a string, element of a list, key of a dict.\<close>

fun py_contains :: "json \<Rightarrow> string \<Rightarrow> py_exn + bool" where
  "py_contains (JStr s) k = Inr (sublist k s)"
| "py_contains (JArr xs) k = Inr (JStr k \<in> set xs)"
| "py_contains (JObj kvs) k = Inr (k \<in> set (map fst kvs))"
| "py_contains _ k = Inl TypeError"

text \<open>\<^verbatim>\<open>v[k]\<close> for a string \<open>k\<close>: only a dict can be indexed by a string.\<close>

fun py_getitem :: "json \<Rightarrow> string \<Rightarrow> py_exn + json" where
  "py_getitem (JObj kvs) k = (case map_of kvs k of None \<Rightarrow> Inl KeyError | Some v \<Rightarrow> Inr v)"
| "py_getitem _ k = Inl TypeError"

text \<open>\<^verbatim>\<open>[x for x in xs if x not in v]\<close>, the tests made from left to right.\<close>

fun filter_not_in :: "string list \<Rightarrow> json \<Rightarrow> py_exn + string list" where
  "filter_not_in [] v = Inr []"
| "filter_not_in (x # xs) v =
     (case py_contains v x of
        Inl e \<Rightarrow> Inl e
      | Inr b \<Rightarrow>
          (case filter_not_in xs v of
             Inl e \<Rightarrow> Inl e
           | Inr r \<Rightarrow> Inr (if b then r else x # r)))"

text \<open>\<^verbatim>\<open>next(it)\<close> with no default: StopIteration when nothing is left.\<close>

fun py_next :: "'a list \<Rightarrow> py_exn + 'a" where
  "py_next [] = Inl StopIteration"
| "py_next (x # xs) = Inr x"

subsection \<open>The regular expressions of the configuration\<close>

text \<open>
  Both patterns of the configuration are a sequence of character classes, each taken a
  fixed number of times or once or more, between \<^verbatim>\<open>^\<close> and \<^verbatim>\<open>$\<close>. \<open>re_match\<close>
  is \<^verbatim>\<open>re.match\<close> for such a pattern: it tries every way to divide the text, and at
  the end of the pattern \<^verbatim>\<open>$\<close> accepts the end of the text or one last newline.
\<close>

datatype quant = Exactly nat | OneOrMore

type_synonym regex = "((char \<Rightarrow> bool) \<times> quant) list"

fun re_match :: "regex \<Rightarrow> string \<Rightarrow> bool" where
  "re_match [] s = (s = [] \<or> s = [newline])"
| "re_match ((p, Exactly 0) # r) s = re_match r s"
| "re_match ((p, Exactly (Suc n)) # r) [] = False"
| "re_match ((p, Exactly (Suc n)) # r) (c # cs) = (p c \<and> re_match ((p, Exactly n) # r) cs)"
| "re_match ((p, OneOrMore) # r) [] = False"
| "re_match ((p, OneOrMore) # r) (c # cs) =
     (p c \<and> (re_match ((p, OneOrMore) # r) cs \<or> re_match r cs))"

definition lit :: "char \<Rightarrow> (char \<Rightarrow> bool) \<times> quant" where
  "lit a = ((\<lambda>c. c = a), Exactly 1)"

text \<open>\<^verbatim>\<open>\d\<close>: below 256 the only decimal digits are 0 to 9.\<close>

definition re_digit :: "char \<Rightarrow> bool" where
  "re_digit c = (let n = (of_char c :: nat) in 48 \<le> n \<and> n \<le> 57)"

text \<open>\<^verbatim>\<open>[0-9a-f]\<close>.\<close>

definition re_hex :: "char \<Rightarrow> bool" where
  "re_hex c = (let n = (of_char c :: nat) in (48 \<le> n \<and> n \<le> 57) \<or> (97 \<le> n \<and> n \<le> 102))"

text \<open>\<^verbatim>\<open>.\<close>: any character but the newline.\<close>

definition re_dot :: "char \<Rightarrow> bool" where
  "re_dot c = (c \<noteq> newline)"

text \<open>\<^verbatim>\<open>^[0-9a-f]{40}$\<close>\<close>

definition sha_regex :: regex where
  "sha_regex = [(re_hex, Exactly 40)]"

text \<open>\<^verbatim>\<open>^\d{4}-\d{2}-\d{2} \| .+ \| [0-9a-f]{40}$\<close>\<close>

definition line_pattern :: regex where
  "line_pattern =
     [(re_digit, Exactly 4), lit CHR ''-'', (re_digit, Exactly 2), lit CHR ''-'',
      (re_digit, Exactly 2), lit CHR '' '', lit CHR ''|'', lit CHR '' '',
      (re_dot, OneOrMore), lit CHR '' '', lit CHR ''|'', lit CHR '' '',
      (re_hex, Exactly 40)]"

section \<open>What the program prints and requests\<close>

text \<open>
  One constructor for each line the program prints, with the values the line shows, and
  one for each HTTP request; the decorative lines of \<open>main\<close> are gathered (a banner, a
  step header, the summary). Each part of the program has its own type of messages, and
  a run is described by the list of its events in order.
\<close>

datatype api_msg =
    Http_get string
  | Env_missing string
  | Api_not_found string
  | Api_failed string nat
  | Api_response_text string
  | Api_exception string
  | Branch_required_missing string
  | Branch_optional_missing string
  | Branch_exists string
  | File_not_found string string
  | Decode_failed string

datatype json_msg =
    Json_syntax_error
  | Json_syntax_ok
  | Too_few_branches nat
  | Missing_branches "string list"
  | Branches_ok nat
  | Too_few_commits string nat
  | Missing_fields string nat "string list"
  | Sha_format string nat string
  | Sha_duplicate string
  | Author_too_short string nat json
  | Files_changed_bad string nat json
  | Commits_ok

datatype md_msg =
    Doc_too_short nat
  | Doc_length_ok
  | Missing_sections "string list"
  | Sections_ok
  | Missing_keywords "string list"
  | Keywords_ok
  | Missing_contributors "string list"
  | Contributors_ok

datatype timeline_msg =
    Too_few_lines nat
  | Line_count_ok nat
  | Line_format nat string
  | Line_format_hint
  | Line_format_ok
  | Missing_entries "string list"
  | Entries_ok

datatype main_msg =
    Unsupported string
  | Started
  | Step nat
  | Env_init_failed
  | Env_ok string
  | Validating string
  | Artifact_ok string
  | Artifacts_failed
  | Source_check_skipped
  | Policy_ok
  | Summary string string

datatype event =
    Api api_msg
  | Json json_msg
  | Md md_msg
  | Timeline timeline_msg
  | Main main_msg

text \<open>The lines that report a failed check: those the validators print with a cross.\<close>

fun json_failure :: "json_msg \<Rightarrow> bool" where
  "json_failure Json_syntax_ok = False"
| "json_failure (Branches_ok n) = False"
| "json_failure Commits_ok = False"
| "json_failure _ = True"

fun md_failure :: "md_msg \<Rightarrow> bool" where
  "md_failure (Doc_too_short n) = True"
| "md_failure (Missing_sections xs) = True"
| "md_failure (Missing_keywords xs) = True"
| "md_failure (Missing_contributors xs) = True"
| "md_failure _ = False"

fun timeline_failure :: "timeline_msg \<Rightarrow> bool" where
  "timeline_failure (Too_few_lines n) = True"
| "timeline_failure (Line_format i l) = True"
| "timeline_failure (Missing_entries xs) = True"
| "timeline_failure _ = False"

section \<open>The configuration\<close>

text \<open>The entries of \<^verbatim>\<open>CONFIG\<close> that the code reads.\<close>

definition github_token_var :: string where
  "github_token_var = ''MCP_GITHUB_TOKEN''"

definition github_org_var :: string where
  "github_org_var = ''GITHUB_EVAL_ORG''"

definition repo_name :: string where
  "repo_name = ''harmony''"

definition target_branch :: string where
  "target_branch = ''history-report-2025''"

definition must_exist :: bool where
  "must_exist = True"

text \<open>
  An artifact of \<^verbatim>\<open>CONFIG["ARTIFACTS"]\<close>: its name, and the \<^verbatim>\<open>encoding\<close> entry of
  its schema when the schema has one. Only the second artifact declares an encoding.
\<close>

record artifact =
  art_name :: string
  art_encoding :: "string option"

definition ARTIFACTS :: "artifact list" where
  "ARTIFACTS =
     [\<lparr>art_name = ''BRANCH_COMMITS.json'', art_encoding = None\<rparr>,
      \<lparr>art_name = ''CROSS_BRANCH_ANALYSIS.md'', art_encoding = Some ''utf-8''\<rparr>,
      \<lparr>art_name = ''MERGE_TIMELINE.txt'', art_encoding = None\<rparr>]"

definition min_branches :: nat where
  "min_branches = 3"

definition commit_fields :: "string list" where
  "commit_fields = [''sha'', ''author'', ''message'', ''files_changed'']"

definition min_commits_per_branch :: nat where
  "min_commits_per_branch = 3"

definition expected_branches :: "string list" where
  "expected_branches =
     [''pr/45-googlefan256-main'',
      ''pr/25-neuralsorcerer-patch-1'',
      ''pr/41-amirhosseinghanipour-fix-race-conditions-and-offline-api'']"

definition author_min_len :: nat where
  "author_min_len = 3"

definition files_changed_min :: int where
  "files_changed_min = 1"

definition required_sections :: "string list" where
  "required_sections = [''## Top Contributors'', ''## Branch Commit Summary'']"

definition min_length :: nat where
  "min_length = 500"

definition must_contain_keywords :: "string list" where
  "must_contain_keywords = [''contributors'', ''commits'', ''branch'']"

definition expected_contributors :: "string list" where
  "expected_contributors =
     [''scott-oai: 35 commits'', ''egorsmkv: 4 commits'', ''axion66: 2 commits'']"

definition min_lines :: nat where
  "min_lines = 10"

definition expected_entries :: "string list" where
  "expected_entries =
     [''2025-08-06 | Merge pull request #29 from axion66/improve-readme-and-checks | 3efbf742533a375fc148d75513597e139329578b'',
      ''2025-08-06 | Merge pull request #30 from Yuan-ManX/harmony-format | 9d653a4c7382abc42d115014d195d9354e7ad357'',
      ''2025-08-05 | Merge pull request #26 from jordan-wu-97/jordan/fix-function-call-atomic-bool | 82b3afb9eb043343f322c937262cc50405e892c3'']"

section \<open>The world outside the program\<close>

text \<open>
  The environment after \<^verbatim>\<open>load_dotenv\<close>, the remote host and the library functions.
  An HTTP request either raises or gives a response: its status code, what
  \<^verbatim>\<open>response.json()\<close> returns (\<open>None\<close> when it raises) and its text. \<open>json_loads\<close>
  is \<open>None\<close> on a JSONDecodeError; \<open>b64decode\<close> and \<open>bytes_decode\<close> are \<open>None\<close>
  when they raise.
\<close>

datatype http_result = Raises | Response nat "json option" string

record world =
  getenv :: "string \<Rightarrow> string option"
  requests_get :: "string \<Rightarrow> (string \<times> string) list \<Rightarrow> http_result"
  json_loads :: "string \<Rightarrow> json option"
  b64decode :: "string \<Rightarrow> nat list option"
  bytes_decode :: "string \<Rightarrow> nat list \<Rightarrow> string option"

section \<open>The API client\<close>

text \<open>\<^verbatim>\<open>not x\<close> for a value that may be \<^verbatim>\<open>None\<close>.\<close>

definition str_falsy :: "string option \<Rightarrow> bool" where
  "str_falsy x = (case x of None \<Rightarrow> True | Some s \<Rightarrow> s = [])"

definition json_falsy :: "json option \<Rightarrow> bool" where
  "json_falsy x = (case x of None \<Rightarrow> True | Some j \<Rightarrow> py_falsy j)"

definition load_github_env :: "world \<Rightarrow> (string option \<times> string option) \<times> api_msg list" where
  "load_github_env w =
     (let github_token = getenv w github_token_var;
          github_org = getenv w github_org_var
      in ((github_token, github_org),
          (if str_falsy github_token then [Env_missing github_token_var] else []) @
          (if str_falsy github_org then [Env_missing github_org_var] else [])))"

definition build_github_headers :: "string \<Rightarrow> (string \<times> string) list" where
  "build_github_headers github_token =
     [(''Authorization'', ''Bearer '' @ github_token),
      (''Accept'', ''application/vnd.github.v3+json''),
      (''User-Agent'', ''harmony-multi-branch-verifier'')]"

text \<open>The address \<^verbatim>\<open>api_url\<close> that \<open>call_github_api\<close> requests.\<close>

definition api_url :: "string \<Rightarrow> string \<Rightarrow> string" where
  "api_url org endpoint =
     ''https://api.github.com/repos/'' @ org @ ''/'' @ repo_name @ ''/'' @ endpoint"

text \<open>
  Every exception inside the \<^verbatim>\<open>try\<close> is caught: one of \<^verbatim>\<open>requests.get\<close>, and one of
  \<^verbatim>\<open>response.json()\<close> on a response with status 200.
\<close>

definition call_github_api ::
  "world \<Rightarrow> string \<Rightarrow> (string \<times> string) list \<Rightarrow> string \<Rightarrow> (bool \<times> json option) \<times> api_msg list"
where
  "call_github_api w endpoint headers org =
     (case requests_get w (api_url org endpoint) headers of
        Raises \<Rightarrow> ((False, None), [Http_get (api_url org endpoint), Api_exception endpoint])
      | Response status_code body text \<Rightarrow>
          if status_code = 200 then
            (case body of
               Some j \<Rightarrow> ((True, Some j), [Http_get (api_url org endpoint)])
             | None \<Rightarrow>
                 ((False, None), [Http_get (api_url org endpoint), Api_exception endpoint]))
          else if status_code = 404 then
            ((False, None), [Http_get (api_url org endpoint), Api_not_found endpoint])
          else
            ((False, None),
             [Http_get (api_url org endpoint), Api_failed endpoint status_code,
              Api_response_text (take 200 text)]))"

text \<open>
  The source reads \<^verbatim>\<open>CONFIG["BRANCH_CONFIG"]["must_exist"]\<close>; here it is the first
  argument, and \<open>main\<close> passes the configured value.
\<close>

definition check_branch_existence ::
  "bool \<Rightarrow> world \<Rightarrow> string \<Rightarrow> (string \<times> string) list \<Rightarrow> string \<Rightarrow> bool \<times> api_msg list"
where
  "check_branch_existence must w branch_name headers org =
     (case call_github_api w (''branches/'' @ branch_name) headers org of
        ((success, data), ev) \<Rightarrow>
          if \<not> success \<and> must then (False, ev @ [Branch_required_missing branch_name])
          else if \<not> success then (True, ev @ [Branch_optional_missing branch_name])
          else (True, ev @ [Branch_exists branch_name]))"

text \<open>
  The expression \<^verbatim>\<open>next(art["schema"]["encoding"] for art in ... if art["name"] ==
  file_name and "encoding" in art["schema"]) or "utf-8"\<close>.
\<close>

definition declared_encoding :: "string \<Rightarrow> py_exn + string" where
  "declared_encoding file_name =
     (case py_next (concat (map (\<lambda>art. case art_encoding art of
                                          Some enc \<Rightarrow> if art_name art = file_name then [enc] else []
                                        | None \<Rightarrow> []) ARTIFACTS)) of
        Inl e \<Rightarrow> Inl e
      | Inr enc \<Rightarrow> Inr (if enc = [] then ''utf-8'' else enc))"

text \<open>The body of the \<^verbatim>\<open>try\<close> of \<open>get_artifact_content\<close>; \<open>Inl\<close> is what it raises.\<close>

definition decode_file_data :: "world \<Rightarrow> string \<Rightarrow> json \<Rightarrow> py_exn + string" where
  "decode_file_data w file_name file_data =
     (case file_data of
        JObj kvs \<Rightarrow>
          (case (case map_of kvs ''content'' of None \<Rightarrow> JStr [] | Some v \<Rightarrow> v) of
             JStr s \<Rightarrow>
               (let base64_content = filter (\<lambda>c. c \<noteq> newline) s
                in case declared_encoding file_name of
                     Inl e \<Rightarrow> Inl e
                   | Inr encoding \<Rightarrow>
                       (case b64decode w base64_content of
                          None \<Rightarrow> Inl Base64Error
                        | Some bs \<Rightarrow>
                            (case bytes_decode w encoding bs of
                               None \<Rightarrow> Inl UnicodeDecodeError
                             | Some t \<Rightarrow> Inr t)))
           | _ \<Rightarrow> Inl AttributeError)
      | _ \<Rightarrow> Inl AttributeError)"

definition get_artifact_content ::
  "world \<Rightarrow> string \<Rightarrow> string \<Rightarrow> (string \<times> string) list \<Rightarrow> string \<Rightarrow> string option \<times> api_msg list"
where
  "get_artifact_content w branch file_name headers org =
     (case call_github_api w (''contents/'' @ file_name @ ''?ref='' @ branch) headers org of
        ((success, file_data), ev) \<Rightarrow>
          if \<not> success \<or> json_falsy file_data then (None, ev @ [File_not_found branch file_name])
          else
            (case file_data of
               None \<Rightarrow> (None, ev @ [File_not_found branch file_name])
             | Some d \<Rightarrow>
                 (case decode_file_data w file_name d of
                    Inl e \<Rightarrow> (None, ev @ [Decode_failed file_name])
                  | Inr t \<Rightarrow> (Some t, ev))))"

section \<open>The validators\<close>

subsection \<open>BRANCH\_COMMITS.json\<close>

text \<open>
  The state of the loops over branches and commits: the shas seen so far, the flag
  \<^verbatim>\<open>valid\<close> and the lines printed.
\<close>

record vstate =
  sha_set :: "string set"
  valid :: bool
  printed :: "json_msg list"

text \<open>A failed check: its line is printed, \<^verbatim>\<open>valid = False\<close>, then \<^verbatim>\<open>continue\<close>.\<close>

definition fail_with :: "json_msg \<Rightarrow> vstate \<Rightarrow> vstate" where
  "fail_with m st = st\<lparr>valid := False, printed := printed st @ [m]\<rparr>"

text \<open>\<^verbatim>\<open>isinstance(v, int)\<close> holds for an integer and for a boolean, which counts as 0 or 1.\<close>

fun py_int_value :: "json \<Rightarrow> int option" where
  "py_int_value (JInt i) = Some i"
| "py_int_value (JBool b) = Some (if b then 1 else 0)"
| "py_int_value _ = None"

text \<open>The body of the loop over the commits of a branch; \<open>Inl\<close> is an exception it raises.\<close>

definition check_commit :: "string \<Rightarrow> nat \<Rightarrow> json \<Rightarrow> vstate \<Rightarrow> py_exn + vstate" where
  "check_commit branch idx commit st =
     (case filter_not_in commit_fields commit of
        Inl e \<Rightarrow> Inl e
      | Inr missing_fields \<Rightarrow>
          if missing_fields \<noteq> [] then Inr (fail_with (Missing_fields branch idx missing_fields) st)
          else
            (case py_getitem commit ''sha'' of
               Inl e \<Rightarrow> Inl e
             | Inr (JStr sha) \<Rightarrow>
                 if \<not> re_match sha_regex sha then Inr (fail_with (Sha_format branch idx sha) st)
                 else if sha \<in> sha_set st then Inr (fail_with (Sha_duplicate sha) st)
                 else
                   (let st1 = st\<lparr>sha_set := insert sha (sha_set st)\<rparr>
                    in case py_getitem commit ''author'' of
                         Inl e \<Rightarrow> Inl e
                       | Inr author \<Rightarrow>
                           (case py_len author of
                              Inl e \<Rightarrow> Inl e
                            | Inr n \<Rightarrow>
                                if n < author_min_len
                                then Inr (fail_with (Author_too_short branch idx author) st1)
                                else
                                  (case py_getitem commit ''files_changed'' of
                                     Inl e \<Rightarrow> Inl e
                                   | Inr fc \<Rightarrow>
                                       (case py_int_value fc of
                                          None \<Rightarrow>
                                            Inr (fail_with (Files_changed_bad branch idx fc) st1)
                                        | Some i \<Rightarrow>
                                            if i < files_changed_min
                                            then Inr (fail_with (Files_changed_bad branch idx fc) st1)
                                            else Inr st1))))
             | Inr _ \<Rightarrow> Inl TypeError))"

text \<open>\<^verbatim>\<open>for idx, commit in enumerate(commits, 1)\<close>\<close>

fun commits_loop :: "string \<Rightarrow> nat \<Rightarrow> json list \<Rightarrow> vstate \<Rightarrow> py_exn + vstate" where
  "commits_loop branch idx [] st = Inr st"
| "commits_loop branch idx (commit # rest) st =
     (case check_commit branch idx commit st of
        Inl e \<Rightarrow> Inl e
      | Inr st' \<Rightarrow> commits_loop branch (Suc idx) rest st')"

text \<open>\<^verbatim>\<open>for branch, commits in data.items()\<close>\<close>

fun branches_loop :: "(string \<times> json) list \<Rightarrow> vstate \<Rightarrow> py_exn + vstate" where
  "branches_loop [] st = Inr st"
| "branches_loop ((branch, commits) # rest) st =
     (case py_len commits of
        Inl e \<Rightarrow> Inl e
      | Inr n \<Rightarrow>
          if n < min_commits_per_branch
          then branches_loop rest (fail_with (Too_few_commits branch n) st)
          else
            (case py_iter commits of
               Inl e \<Rightarrow> Inl e
             | Inr cs \<Rightarrow>
                 (case commits_loop branch 1 cs st of
                    Inl e \<Rightarrow> Inl e
                  | Inr st' \<Rightarrow> branches_loop rest st')))"

text \<open>\<^verbatim>\<open>data.items()\<close>: only a dict has it.\<close>

fun py_items :: "json \<Rightarrow> py_exn + (string \<times> json) list" where
  "py_items (JObj kvs) = Inr kvs"
| "py_items _ = Inl AttributeError"

text \<open>The validator after \<^verbatim>\<open>json.loads\<close> has returned \<open>data\<close>.\<close>

definition validate_branch_commits_data :: "json \<Rightarrow> py_exn + (bool \<times> json_msg list)" where
  "validate_branch_commits_data data =
     (case py_len data of
        Inl e \<Rightarrow> Inl e
      | Inr n \<Rightarrow>
          if n < min_branches then Inr (False, [Json_syntax_ok, Too_few_branches n])
          else
            (case filter_not_in expected_branches data of
               Inl e \<Rightarrow> Inl e
             | Inr missing_branches \<Rightarrow>
                 if missing_branches \<noteq> []
                 then Inr (False, [Json_syntax_ok, Missing_branches missing_branches])
                 else
                   (case py_items data of
                      Inl e \<Rightarrow> Inl e
                    | Inr items \<Rightarrow>
                        (case branches_loop items
                                \<lparr>sha_set = {}, valid = True,
                                 printed = [Json_syntax_ok, Branches_ok n]\<rparr> of
                           Inl e \<Rightarrow> Inl e
                         | Inr st \<Rightarrow>
                             Inr (valid st,
                                  printed st @ (if valid st then [Commits_ok] else []))))))"

definition validate_branch_commits_json :: "world \<Rightarrow> string \<Rightarrow> py_exn + (bool \<times> json_msg list)" where
  "validate_branch_commits_json w content =
     (case json_loads w content of
        None \<Rightarrow> Inr (False, [Json_syntax_error])
      | Some data \<Rightarrow> validate_branch_commits_data data)"

subsection \<open>CROSS\_BRANCH\_ANALYSIS.md\<close>

definition validate_cross_branch_md :: "string \<Rightarrow> bool \<times> md_msg list" where
  "validate_cross_branch_md content =
     (if length content < min_length then (False, [Doc_too_short (length content)])
      else
        (let missing_sections = filter (\<lambda>s. \<not> sublist s content) required_sections
         in if missing_sections \<noteq> []
            then (False, [Doc_length_ok, Missing_sections missing_sections])
            else
              (let missing_keywords =
                     filter (\<lambda>k. \<not> sublist (py_lower k) (py_lower content)) must_contain_keywords
               in if missing_keywords \<noteq> []
                  then (False, [Doc_length_ok, Sections_ok, Missing_keywords missing_keywords])
                  else
                    (let missing_contributors =
                           filter (\<lambda>c. \<not> sublist c content) expected_contributors
                     in if missing_contributors \<noteq> []
                        then (False, [Doc_length_ok, Sections_ok, Keywords_ok,
                                      Missing_contributors missing_contributors])
                        else (True, [Doc_length_ok, Sections_ok, Keywords_ok,
                                     Contributors_ok])))))"

subsection \<open>MERGE\_TIMELINE.txt\<close>

text \<open>\<^verbatim>\<open>[l.strip() for l in content.split("\n") if l.strip()]\<close>\<close>

definition timeline_lines :: "string \<Rightarrow> string list" where
  "timeline_lines content =
     map py_strip (filter (\<lambda>l. py_strip l \<noteq> []) (py_split_nl content))"

text \<open>
  The loop \<^verbatim>\<open>for idx, line in enumerate(lines, 1)\<close>, which returns at the first line
  that does not match: its result is that line with its index.
\<close>

fun first_bad_line :: "nat \<Rightarrow> string list \<Rightarrow> (nat \<times> string) option" where
  "first_bad_line idx [] = None"
| "first_bad_line idx (line # rest) =
     (if \<not> re_match line_pattern line then Some (idx, line)
      else first_bad_line (Suc idx) rest)"

definition validate_merge_timeline :: "string \<Rightarrow> bool \<times> timeline_msg list" where
  "validate_merge_timeline content =
     (let lines = timeline_lines content
      in if length lines < min_lines then (False, [Too_few_lines (length lines)])
         else
           (case first_bad_line 1 lines of
              Some (idx, line) \<Rightarrow>
                (False, [Line_count_ok (length lines), Line_format idx line, Line_format_hint])
            | None \<Rightarrow>
                (let missing_entries = filter (\<lambda>e. \<not> sublist e content) expected_entries
                 in if missing_entries \<noteq> []
                    then (False, [Line_count_ok (length lines), Line_format_ok,
                                  Missing_entries (map (\<lambda>e. take 50 e @ ''...'') missing_entries)])
                    else (True, [Line_count_ok (length lines), Line_format_ok, Entries_ok]))))"

subsection \<open>The router\<close>

definition validate_artifact :: "world \<Rightarrow> string \<Rightarrow> string \<Rightarrow> py_exn + (bool \<times> event list)" where
  "validate_artifact w content artifact_name =
     (if artifact_name = ''BRANCH_COMMITS.json'' then
        (case validate_branch_commits_json w content of
           Inl e \<Rightarrow> Inl e
         | Inr (ok, ms) \<Rightarrow> Inr (ok, map Json ms))
      else if artifact_name = ''CROSS_BRANCH_ANALYSIS.md'' then
        (case validate_cross_branch_md content of (ok, ms) \<Rightarrow> Inr (ok, map Md ms))
      else if artifact_name = ''MERGE_TIMELINE.txt'' then
        (case validate_merge_timeline content of (ok, ms) \<Rightarrow> Inr (ok, map Timeline ms))
      else Inr (True, [Main (Unsupported artifact_name)]))"

section \<open>The main flow\<close>

text \<open>
  The loop of step 3 over the artifacts: the flag \<^verbatim>\<open>all_valid\<close> and the events of the
  loop. \<^verbatim>\<open>if not content\<close> holds for \<^verbatim>\<open>None\<close> and for the empty text, so the
  validator is called on a content that is there. An exception of a validator is not
  caught.
\<close>

fun artifacts_loop ::
  "world \<Rightarrow> (string \<times> string) list \<Rightarrow> string \<Rightarrow> artifact list \<Rightarrow> bool \<Rightarrow> py_exn + (bool \<times> event list)"
where
  "artifacts_loop w headers org [] all_valid = Inr (all_valid, [])"
| "artifacts_loop w headers org (art # rest) all_valid =
     (case get_artifact_content w target_branch (art_name art) headers org of
        (content, ev) \<Rightarrow>
          if str_falsy content then
            (case artifacts_loop w headers org rest False of
               Inl e \<Rightarrow> Inl e
             | Inr (v, evs) \<Rightarrow> Inr (v, Main (Validating (art_name art)) # map Api ev @ evs))
          else
            (case validate_artifact w (the content) (art_name art) of
               Inl e \<Rightarrow> Inl e
             | Inr (ok, ms) \<Rightarrow>
                 (case artifacts_loop w headers org rest (if ok then all_valid else False) of
                    Inl e \<Rightarrow> Inl e
                  | Inr (v, evs) \<Rightarrow>
                      Inr (v, Main (Validating (art_name art)) # map Api ev @ ms @
                              (if ok then [Main (Artifact_ok (art_name art))] else []) @ evs))))"

text \<open>
  \<open>main\<close> ends with \<^verbatim>\<open>sys.exit\<close>: its result is the exit status with the events of the
  run, or the exception that was not caught.
\<close>

definition main :: "world \<Rightarrow> py_exn + (nat \<times> event list)" where
  "main w =
     (case load_github_env w of
        ((github_token, github_org), ev1) \<Rightarrow>
          if str_falsy github_token \<or> str_falsy github_org
          then Inr (1, [Main Started, Main (Step 1)] @ map Api ev1 @ [Main Env_init_failed])
          else
            (let headers = build_github_headers (the github_token);
                 org = the github_org;
                 pre = [Main Started, Main (Step 1)] @ map Api ev1 @ [Main (Env_ok org), Main (Step 2)]
             in case check_branch_existence must_exist w target_branch headers org of
                  (found, ev2) \<Rightarrow>
                    if \<not> found then Inr (1, pre @ map Api ev2)
                    else
                      (case artifacts_loop w headers org ARTIFACTS True of
                         Inl e \<Rightarrow> Inl e
                       | Inr (all_valid, ev3) \<Rightarrow>
                           if \<not> all_valid
                           then Inr (1, pre @ map Api ev2 @ [Main (Step 3)] @ ev3 @
                                        [Main Artifacts_failed])
                           else Inr (0, pre @ map Api ev2 @ [Main (Step 3)] @ ev3 @
                                        [Main (Step 4), Main Source_check_skipped,
                                         Main (Step 5), Main Policy_ok,
                                         Main (Summary org target_branch)]))))"

section \<open>Concrete worlds and inputs\<close>

text \<open>A host that answers every request with status 200 and a body that is not JSON.\<close>

definition html_world :: world where
  "html_world =
     \<lparr>getenv = (\<lambda>v. Some ''acme''),
      requests_get = (\<lambda>url headers. Response 200 None ''<html>''),
      json_loads = (\<lambda>s. None),
      b64decode = (\<lambda>s. None),
      bytes_decode = (\<lambda>enc bs. None)\<rparr>"

text \<open>
  A host that answers every request with the given status and a JSON body whose
  \<^verbatim>\<open>content\<close> is the base64 text of an empty JSON object followed by a newline.
\<close>

definition status_world :: "nat \<Rightarrow> world" where
  "status_world code =
     \<lparr>getenv = (\<lambda>v. Some ''acme''),
      requests_get =
        (\<lambda>url headers. Response code (Some (JObj [(''content'', JStr ''e30K'')])) ''{}''),
      json_loads = (\<lambda>s. Some (JObj [])),
      b64decode = (\<lambda>s. Some [123, 125, 10]),
      bytes_decode = (\<lambda>enc bs. Some (''{}'' @ [newline]))\<rparr>"

text \<open>
  A document of 499 characters with every required header, keyword and contributor
  line. One of its characters is above 127, so its utf-8 encoding has 500 bytes.
\<close>

definition short_doc :: string where
  "short_doc =
     ''## Top Contributors'' @ [newline] @
     ''scott-oai: 35 commits'' @ [newline] @
     ''egorsmkv: 4 commits'' @ [newline] @
     ''axion66: 2 commits'' @ [newline] @
     ''## Branch Commit Summary'' @ [newline] @
     ''caf'' @ [CHR 0xE9] @ '' branch'' @ replicate 382 (CHR ''.'')"

text \<open>Timelines: the expected entries and eight more, one of them indented.\<close>

definition join_lines :: "string list \<Rightarrow> string" where
  "join_lines ls = concat (map (\<lambda>l. l @ [newline]) ls)"

definition entry :: "string \<Rightarrow> string \<Rightarrow> char \<Rightarrow> string" where
  "entry day description c = day @ '' | '' @ description @ '' | '' @ replicate 40 c"

definition other_entries :: "string list" where
  "other_entries =
     [entry ''2025-08-05'' ''Fix typo in README'' CHR ''a'',
      entry ''2025-08-05'' ''Add encoding tests'' CHR ''b'',
      entry ''2025-08-04'' ''Bump version'' CHR ''c'',
      entry ''2025-08-04'' ''Update docs'' CHR ''d'',
      entry ''2025-08-03'' ''Refactor parser'' CHR ''e'',
      entry ''2025-08-02'' ''Add CI workflow'' CHR ''f'',
      entry ''2025-08-01'' ''Initial import'' CHR ''0'',
      ''  '' @ entry ''2025-08-01'' ''Indented | entry'' CHR ''1'' @ ''  '']"

definition good_timeline :: string where
  "good_timeline = join_lines (expected_entries @ [[]] @ other_entries)"

definition bad_timeline :: string where
  "bad_timeline = join_lines (expected_entries @ [''2025-08-04 | no sha here''] @ other_entries)"

section \<open>Properties of the API client\<close>

lemma str_falsy_simps [simp]:
  "str_falsy None = True" "str_falsy (Some s) = (s = [])"
  by (simp_all add: str_falsy_def)

subsection \<open>The encoding of an artifact\<close>

lemma declared_encoding_cases:
  "declared_encoding file_name =
     (if file_name = ''CROSS_BRANCH_ANALYSIS.md'' then Inr ''utf-8'' else Inl StopIteration)"
  by (simp add: declared_encoding_def ARTIFACTS_def)

lemma decode_file_data_undeclared:
  assumes "file_name \<noteq> ''CROSS_BRANCH_ANALYSIS.md''"
  shows "\<exists>e. decode_file_data w file_name d = Inl e"
  using assms
  by (simp add: decode_file_data_def declared_encoding_cases split: json.splits option.splits)

text \<open>
  For an artifact whose schema declares no encoding, \<^verbatim>\<open>next\<close> raises StopIteration
  inside the \<^verbatim>\<open>try\<close>, so the content is \<^verbatim>\<open>None\<close> whatever the host answers.
\<close>

lemma get_artifact_content_undeclared:
  assumes "file_name \<noteq> ''CROSS_BRANCH_ANALYSIS.md''"
  shows "fst (get_artifact_content w branch file_name headers org) = None"
proof -
  obtain success file_data ev where c:
    "call_github_api w (''contents/'' @ file_name @ ''?ref='' @ branch) headers org
       = ((success, file_data), ev)"
    by (metis prod.exhaust)
  show ?thesis
  proof (cases file_data)
    case None
    with c show ?thesis by (simp add: get_artifact_content_def)
  next
    case (Some d)
    from decode_file_data_undeclared [OF assms] obtain e
      where "decode_file_data w file_name d = Inl e" by blast
    with c Some show ?thesis by (simp add: get_artifact_content_def)
  qed
qed

text \<open>
  C1. The content of an artifact is to be decoded with the declared encoding, and with
  utf-8 when the artifact declares none. On \<^verbatim>\<open>BRANCH_COMMITS.json\<close>, which declares
  none, with a fetch that succeeds and a content field that is valid base64, the code
  returns \<^verbatim>\<open>None\<close> and reports a decoding failure.
\<close>

theorem get_artifact_content_json_decode_failed:
  "get_artifact_content (status_world 200) target_branch ''BRANCH_COMMITS.json''
       (build_github_headers ''t'') ''acme''
     = (None,
        [Http_get ''https://api.github.com/repos/acme/harmony/contents/BRANCH_COMMITS.json?ref=history-report-2025'',
         Decode_failed ''BRANCH_COMMITS.json''])"
  by (simp add: get_artifact_content_def call_github_api_def api_url_def repo_name_def
      target_branch_def status_world_def json_falsy_def decode_file_data_def
      declared_encoding_cases)

theorem get_artifact_content_json_decode_failed_witness:
  "fst (get_artifact_content (status_world 200) target_branch ''BRANCH_COMMITS.json''
          (build_github_headers ''t'') ''acme'') = None \<and>
   b64decode (status_world 200) ''e30K'' = Some [123, 125, 10] \<and>
   bytes_decode (status_world 200) ''utf-8'' [123, 125, 10] = Some (''{}'' @ [newline])"
  using get_artifact_content_json_decode_failed by (simp add: status_world_def)

subsection \<open>The existence of the branch\<close>

lemma check_branch_existence_200:
  assumes "requests_get w (api_url org (''branches/'' @ b)) headers = Response 200 (Some j) t"
  shows "check_branch_existence must w b headers org
           = (True, [Http_get (api_url org (''branches/'' @ b)), Branch_exists b])"
  using assms by (simp add: check_branch_existence_def call_github_api_def)

lemma check_branch_existence_404:
  assumes "requests_get w (api_url org (''branches/'' @ b)) headers = Response 404 body t"
  shows "check_branch_existence must w b headers org
           = (\<not> must,
              [Http_get (api_url org (''branches/'' @ b)), Api_not_found (''branches/'' @ b),
               if must then Branch_required_missing b else Branch_optional_missing b])"
  using assms by (simp add: check_branch_existence_def call_github_api_def)

lemma main_branch_missing:
  assumes "getenv w github_token_var = Some token" "token \<noteq> []"
    and "getenv w github_org_var = Some org" "org \<noteq> []"
    and "fst (check_branch_existence must_exist w target_branch (build_github_headers token) org)
           = False"
  shows "main w =
           Inr (1, [Main Started, Main (Step 1), Main (Env_ok org), Main (Step 2)] @
                   map Api (snd (check_branch_existence must_exist w target_branch
                                   (build_github_headers token) org)))"
  using assms
  by (cases "check_branch_existence must_exist w target_branch (build_github_headers token) org")
     (simp add: main_def load_github_env_def Let_def)

text \<open>
  C8, as the claim states it, fails: a response with status 200 whose body is not JSON
  makes \<^verbatim>\<open>response.json()\<close> raise inside \<open>call_github_api\<close>, the exception is caught
  and the check of a mandatory branch fails.
\<close>

theorem check_branch_existence_200_no_json:
  "requests_get html_world (api_url ''acme'' (''branches/'' @ target_branch))
       (build_github_headers ''t'')
     = Response 200 None ''<html>'' \<and>
   check_branch_existence must_exist html_world target_branch (build_github_headers ''t'') ''acme''
     = (False,
        [Http_get (api_url ''acme'' (''branches/'' @ target_branch)),
         Api_exception (''branches/'' @ target_branch),
         Branch_required_missing target_branch])"
  by (simp add: check_branch_existence_def call_github_api_def html_world_def must_exist_def)

text \<open>
  C8, amended. A response with status 200 and a JSON body makes the check pass. A
  response with status 404 makes the check fail when the branch is mandatory and pass with
  a warning when it is not; with the configured mandatory branch, \<open>main\<close> then exits
  with status 1 without any further request.
\<close>

theorem branch_existence_check:
  "(requests_get w (api_url org (''branches/'' @ b)) headers = Response 200 (Some j) t \<longrightarrow>
      check_branch_existence must w b headers org
        = (True, [Http_get (api_url org (''branches/'' @ b)), Branch_exists b])) \<and>
   (requests_get w (api_url org (''branches/'' @ b)) headers = Response 404 body t \<longrightarrow>
      check_branch_existence True w b headers org
        = (False, [Http_get (api_url org (''branches/'' @ b)), Api_not_found (''branches/'' @ b),
                   Branch_required_missing b]) \<and>
      check_branch_existence False w b headers org
        = (True, [Http_get (api_url org (''branches/'' @ b)), Api_not_found (''branches/'' @ b),
                  Branch_optional_missing b])) \<and>
   (getenv w github_token_var = Some token \<and> token \<noteq> [] \<and>
    getenv w github_org_var = Some org \<and> org \<noteq> [] \<and>
    requests_get w (api_url org (''branches/'' @ target_branch)) (build_github_headers token)
      = Response 404 body t \<longrightarrow>
      main w = Inr (1, [Main Started, Main (Step 1), Main (Env_ok org), Main (Step 2),
                        Api (Http_get (api_url org (''branches/'' @ target_branch))),
                        Api (Api_not_found (''branches/'' @ target_branch)),
                        Api (Branch_required_missing target_branch)]))"
proof (intro conjI impI)
  assume "requests_get w (api_url org (''branches/'' @ b)) headers = Response 200 (Some j) t"
  then show "check_branch_existence must w b headers org
        = (True, [Http_get (api_url org (''branches/'' @ b)), Branch_exists b])"
    by (rule check_branch_existence_200)
next
  assume "requests_get w (api_url org (''branches/'' @ b)) headers = Response 404 body t"
  then show "check_branch_existence True w b headers org
        = (False, [Http_get (api_url org (''branches/'' @ b)), Api_not_found (''branches/'' @ b),
                   Branch_required_missing b])"
    by (simp add: check_branch_existence_404)
next
  assume "requests_get w (api_url org (''branches/'' @ b)) headers = Response 404 body t"
  then show "check_branch_existence False w b headers org
        = (True, [Http_get (api_url org (''branches/'' @ b)), Api_not_found (''branches/'' @ b),
                  Branch_optional_missing b])"
    by (simp add: check_branch_existence_404)
next
  assume a: "getenv w github_token_var = Some token \<and> token \<noteq> [] \<and>
    getenv w github_org_var = Some org \<and> org \<noteq> [] \<and>
    requests_get w (api_url org (''branches/'' @ target_branch)) (build_github_headers token)
      = Response 404 body t"
  then have c:
    "check_branch_existence must_exist w target_branch (build_github_headers token) org
       = (False, [Http_get (api_url org (''branches/'' @ target_branch)),
                  Api_not_found (''branches/'' @ target_branch),
                  Branch_required_missing target_branch])"
    by (simp add: check_branch_existence_404 must_exist_def)
  from a have "main w =
      Inr (1, [Main Started, Main (Step 1), Main (Env_ok org), Main (Step 2)] @
              map Api (snd (check_branch_existence must_exist w target_branch
                              (build_github_headers token) org)))"
    by (intro main_branch_missing) (simp_all add: c)
  then show "main w = Inr (1, [Main Started, Main (Step 1), Main (Env_ok org), Main (Step 2),
                        Api (Http_get (api_url org (''branches/'' @ target_branch))),
                        Api (Api_not_found (''branches/'' @ target_branch)),
                        Api (Branch_required_missing target_branch)])"
    by (simp add: c)
qed

theorem branch_existence_check_witness:
  "requests_get (status_world 200) (api_url ''acme'' (''branches/'' @ target_branch)) []
     = Response 200 (Some (JObj [(''content'', JStr ''e30K'')])) ''{}'' \<and>
   check_branch_existence True (status_world 200) target_branch [] ''acme''
     = (True, [Http_get (api_url ''acme'' (''branches/'' @ target_branch)),
               Branch_exists target_branch]) \<and>
   requests_get (status_world 404) (api_url ''acme'' (''branches/'' @ target_branch)) []
     = Response 404 (Some (JObj [(''content'', JStr ''e30K'')])) ''{}'' \<and>
   fst (check_branch_existence True (status_world 404) target_branch [] ''acme'') = False \<and>
   fst (check_branch_existence False (status_world 404) target_branch [] ''acme'') = True \<and>
   getenv (status_world 404) github_token_var = Some ''acme'' \<and>
   getenv (status_world 404) github_org_var = Some ''acme'' \<and>
   (\<exists>evs. main (status_world 404) = Inr (1, evs))"
  using branch_existence_check [of "status_world 200" "''acme''" target_branch "[]"
      "JObj [(''content'', JStr ''e30K'')]" "''{}''" True]
    branch_existence_check [where w = "status_world 404" and org = "''acme''"
      and b = target_branch and headers = "[]"
      and body = "Some (JObj [(''content'', JStr ''e30K'')])" and t = "''{}''"
      and token = "''acme''"]
  by (simp add: status_world_def)

section \<open>Properties of the validators\<close>

subsection \<open>What the patterns match\<close>

text \<open>
  A class taken \<open>n\<close> times matches a prefix of \<open>n\<close> characters of the class, a class
  taken once or more a non-empty prefix of characters of the class; the rest of the pattern
  matches the rest of the text.
\<close>

lemma re_match_Exactly:
  "re_match ((p, Exactly n) # r) s \<longleftrightarrow>
     (\<exists>a b. s = a @ b \<and> length a = n \<and> list_all p a \<and> re_match r b)"
proof (induction n arbitrary: s)
  case 0
  then show ?case by simp
next
  case (Suc n)
  show ?case
  proof (cases s)
    case Nil
    then show ?thesis by simp
  next
    case (Cons c cs)
    have "re_match ((p, Exactly (Suc n)) # r) (c # cs) \<longleftrightarrow>
            p c \<and> (\<exists>a b. cs = a @ b \<and> length a = n \<and> list_all p a \<and> re_match r b)"
      using Suc.IH [of cs] by simp
    also have "\<dots> \<longleftrightarrow>
        (\<exists>a b. c # cs = a @ b \<and> length a = Suc n \<and> list_all p a \<and> re_match r b)"
      (is "?L \<longleftrightarrow> ?R")
    proof
      assume ?L
      then obtain a b where "cs = a @ b" "length a = n" "list_all p a" "re_match r b" "p c"
        by blast
      then have "c # cs = (c # a) @ b \<and> length (c # a) = Suc n \<and> list_all p (c # a) \<and> re_match r b"
        by simp
      then show ?R by blast
    next
      assume ?R
      then obtain a b where ab: "c # cs = a @ b" "length a = Suc n" "list_all p a" "re_match r b"
        by blast
      then obtain a' where "a = c # a'" by (cases a) auto
      with ab show ?L by auto
    qed
    finally show ?thesis using Cons by simp
  qed
qed

lemma re_match_OneOrMore:
  "re_match ((p, OneOrMore) # r) s \<longleftrightarrow>
     (\<exists>a b. s = a @ b \<and> a \<noteq> [] \<and> list_all p a \<and> re_match r b)"
proof (induction s)
  case Nil
  then show ?case by simp
next
  case (Cons c cs)
  show ?case (is "?L \<longleftrightarrow> ?R")
  proof
    assume l: ?L
    then have pc: "p c" by simp
    from l consider "re_match ((p, OneOrMore) # r) cs" | "re_match r cs" by auto
    then show ?R
    proof cases
      case 1
      with Cons.IH obtain a b where "cs = a @ b" "list_all p a" "re_match r b" by blast
      with pc have "c # cs = (c # a) @ b \<and> c # a \<noteq> [] \<and> list_all p (c # a) \<and> re_match r b"
        by simp
      then show ?thesis by blast
    next
      case 2
      with pc have "c # cs = [c] @ cs \<and> [c] \<noteq> [] \<and> list_all p [c] \<and> re_match r cs"
        by simp
      then show ?thesis by blast
    qed
  next
    assume ?R
    then obtain a b where ab: "c # cs = a @ b" "a \<noteq> []" "list_all p a" "re_match r b"
      by blast
    then obtain a' where a: "a = c # a'" by (cases a) auto
    show ?L
    proof (cases a')
      case Nil
      with ab a show ?thesis by simp
    next
      case (Cons x xs)
      with ab a have "cs = a' @ b \<and> a' \<noteq> [] \<and> list_all p a' \<and> re_match r b" by simp
      then have "re_match ((p, OneOrMore) # r) cs" using Cons.IH by blast
      with ab a show ?thesis by simp
    qed
  qed
qed

lemma re_match_lit:
  "re_match (lit x # r) s \<longleftrightarrow> (\<exists>b. s = x # b \<and> re_match r b)"
  by (cases s) (auto simp: lit_def)

lemma re_match_sha_regex:
  "re_match sha_regex s \<longleftrightarrow>
     (\<exists>h. length h = 40 \<and> list_all re_hex h \<and> (s = h \<or> s = h @ [newline]))"
  unfolding sha_regex_def re_match_Exactly by auto

lemma re_match_line_pattern:
  "re_match line_pattern l \<longleftrightarrow>
     (\<exists>y m d desc sha e.
        l = y @ ''-'' @ m @ ''-'' @ d @ '' | '' @ desc @ '' | '' @ sha @ e \<and>
        length y = 4 \<and> list_all re_digit y \<and>
        length m = 2 \<and> list_all re_digit m \<and>
        length d = 2 \<and> list_all re_digit d \<and>
        desc \<noteq> [] \<and> list_all re_dot desc \<and>
        length sha = 40 \<and> list_all re_hex sha \<and>
        (e = [] \<or> e = [newline]))"
  unfolding line_pattern_def re_match_Exactly re_match_lit re_match_OneOrMore
  by (simp add: ex_simps [symmetric] del: ex_simps)


subsection \<open>The narrative document\<close>

lemma length_utf8_encode_ge: "length s \<le> length (utf8_encode s)"
  by (induction s) (simp_all add: utf8_encode_def Let_def)

lemma validate_cross_branch_md_pass_iff:
  "fst (validate_cross_branch_md content) \<longleftrightarrow>
     min_length \<le> length content \<and>
     (\<forall>s \<in> set required_sections. sublist s content) \<and>
     (\<forall>k \<in> set must_contain_keywords. sublist (py_lower k) (py_lower content)) \<and>
     (\<forall>c \<in> set expected_contributors. sublist c content)"
  by (auto simp: validate_cross_branch_md_def Let_def filter_empty_conv)

lemma validate_cross_branch_md_short_bytes:
  assumes "length (utf8_encode content) < min_length"
  shows "validate_cross_branch_md content = (False, [Doc_too_short (length content)])"
  using assms length_utf8_encode_ge [of content]
  by (simp add: validate_cross_branch_md_def)

lemma sublist_append_right: "sublist s c \<Longrightarrow> sublist s (c @ extra)"
  by (auto simp: sublist_def) (metis append.assoc)

lemma validate_cross_branch_md_append:
  assumes "fst (validate_cross_branch_md content)"
  shows "fst (validate_cross_branch_md (content @ extra))"
  using assms
  by (auto simp: validate_cross_branch_md_pass_iff py_lower_def intro: sublist_append_right)

lemma short_doc_length: "length short_doc = 499"
  by (simp add: short_doc_def)

lemma short_doc_bytes: "length (utf8_encode short_doc) = 500"
  by (simp add: short_doc_def utf8_encode_def newline_def)

lemma short_doc_sections: "filter (\<lambda>s. \<not> sublist s short_doc) required_sections = []"
  by code_simp

lemma short_doc_contributors: "filter (\<lambda>s. \<not> sublist s short_doc) expected_contributors = []"
  by code_simp


lemma short_doc_keywords:
  "filter (\<lambda>k. \<not> sublist (py_lower k) (py_lower short_doc)) must_contain_keywords = []"
  by code_simp

text \<open>
  C6. The document is to pass when it has all required headers, keywords and contributor
  lines and at least 500 bytes, and the line the code prints asks for 500 bytes. The code
  compares \<^verbatim>\<open>len(content)\<close>, the number of characters: \<open>short_doc\<close> has all the
  required parts and 500 bytes, and fails as too short.
\<close>

theorem validate_cross_branch_md_counts_code_points:
  "length (utf8_encode short_doc) = 500 \<and>
   filter (\<lambda>s. \<not> sublist s short_doc) required_sections = [] \<and>
   filter (\<lambda>k. \<not> sublist (py_lower k) (py_lower short_doc)) must_contain_keywords = [] \<and>
   filter (\<lambda>c. \<not> sublist c short_doc) expected_contributors = [] \<and>
   validate_cross_branch_md short_doc = (False, [Doc_too_short 499])"
  using short_doc_bytes short_doc_sections short_doc_keywords short_doc_contributors
  by (simp add: validate_cross_branch_md_def short_doc_length min_length_def)



theorem validate_cross_branch_md_counts_code_points_witness:
  "min_length \<le> length (utf8_encode short_doc) \<and> \<not> fst (validate_cross_branch_md short_doc)"
  using validate_cross_branch_md_counts_code_points by (simp add: min_length_def)

subsection \<open>The timeline\<close>

lemma first_bad_line_None:
  "first_bad_line idx ls = None \<longleftrightarrow> (\<forall>l \<in> set ls. re_match line_pattern l)"
  by (induction ls arbitrary: idx) auto

lemma first_bad_line_Some:
  assumes "i < length ls" "\<not> re_match line_pattern (ls ! i)"
    and "\<forall>j<i. re_match line_pattern (ls ! j)"
  shows "first_bad_line idx ls = Some (idx + i, ls ! i)"
  using assms
proof (induction ls arbitrary: idx i)
  case Nil
  then show ?case by simp
next
  case (Cons l ls)
  show ?case
  proof (cases i)
    case 0
    with Cons.prems show ?thesis by simp
  next
    case (Suc k)
    with Cons.prems have "re_match line_pattern l" by auto
    moreover have "first_bad_line (Suc idx) ls = Some (Suc idx + k, ls ! k)"
      using Cons.prems Suc by (intro Cons.IH) auto
    ultimately show ?thesis using Suc by simp
  qed
qed

lemma validate_merge_timeline_too_few:
  assumes "length (timeline_lines content) < min_lines"
  shows "validate_merge_timeline content
           = (False, [Too_few_lines (length (timeline_lines content))])"
  using assms by (simp add: validate_merge_timeline_def Let_def)

lemma validate_merge_timeline_bad_line:
  assumes "min_lines \<le> length (timeline_lines content)"
    and "i < length (timeline_lines content)"
    and "\<not> re_match line_pattern (timeline_lines content ! i)"
    and "\<forall>j<i. re_match line_pattern (timeline_lines content ! j)"
  shows "validate_merge_timeline content
           = (False, [Line_count_ok (length (timeline_lines content)),
                      Line_format (Suc i) (timeline_lines content ! i), Line_format_hint])"
  using assms first_bad_line_Some [OF assms(2-4), of 1]
  by (simp add: validate_merge_timeline_def Let_def)

lemma validate_merge_timeline_pass:
  assumes "min_lines \<le> length (timeline_lines content)"
    and "\<forall>l \<in> set (timeline_lines content). re_match line_pattern l"
    and "\<forall>e \<in> set expected_entries. sublist e content"
  shows "validate_merge_timeline content
           = (True, [Line_count_ok (length (timeline_lines content)), Line_format_ok, Entries_ok])"
proof -
  have "first_bad_line 1 (timeline_lines content) = None"
    using assms(2) by (simp add: first_bad_line_None)
  moreover have "filter (\<lambda>e. \<not> sublist e content) expected_entries = []"
    using assms(3) by (simp add: filter_empty_conv)
  ultimately show ?thesis
    using assms(1) by (simp add: validate_merge_timeline_def Let_def)
qed

lemma validate_merge_timeline_some_bad:
  assumes "\<exists>l \<in> set (timeline_lines content). \<not> re_match line_pattern l"
  shows "\<not> fst (validate_merge_timeline content)"
proof -
  have "first_bad_line 1 (timeline_lines content) \<noteq> None"
    using assms by (simp add: first_bad_line_None)
  then show ?thesis
    by (auto simp: validate_merge_timeline_def Let_def)
qed

lemma good_timeline_lines:
  "timeline_lines good_timeline = expected_entries @ map py_strip other_entries"
  by code_simp

lemma good_timeline_match:
  "list_all (re_match line_pattern) (expected_entries @ map py_strip other_entries)"
  by code_simp

lemma good_timeline_entries:
  "list_all (\<lambda>e. sublist e good_timeline) expected_entries"
  by code_simp

lemma bad_timeline_lines:
  "timeline_lines bad_timeline
     = expected_entries @ [''2025-08-04 | no sha here''] @ map py_strip other_entries"
  by code_simp

lemma bad_timeline_match:
  "list_all (re_match line_pattern) expected_entries \<and>
   \<not> re_match line_pattern ''2025-08-04 | no sha here''"
  by code_simp


lemma bad_timeline_first_lines:
  "\<forall>j<3. re_match line_pattern (timeline_lines bad_timeline ! j)"
proof -
  have "list_all (re_match line_pattern) expected_entries"
    using bad_timeline_match by simp
  moreover have "length expected_entries = 3"
    by (simp add: expected_entries_def)
  ultimately show ?thesis
    by (simp add: bad_timeline_lines list_all_length nth_append)
qed

lemma bad_timeline_fourth_line:
  "timeline_lines bad_timeline ! 3 = ''2025-08-04 | no sha here'' \<and>
   length (timeline_lines bad_timeline) = 12"
  by (simp add: bad_timeline_lines expected_entries_def other_entries_def nth_append)

text \<open>
  C7, as the claim states it, fails: the count of the lines is checked before their format,
  so a log of one line that does not match fails on the count and no index is reported.
\<close>

theorem validate_merge_timeline_count_first:
  "timeline_lines ''not a timeline entry'' = [''not a timeline entry''] \<and>
   \<not> re_match line_pattern ''not a timeline entry'' \<and>
   validate_merge_timeline ''not a timeline entry'' = (False, [Too_few_lines 1])"
proof -
  have l: "timeline_lines ''not a timeline entry'' = [''not a timeline entry'']"
    by code_simp
  have m: "\<not> re_match line_pattern ''not a timeline entry''"
    by code_simp
  from l m show ?thesis
    by (simp add: validate_merge_timeline_too_few min_lines_def)
qed

text \<open>
  C7, amended. The lines of a log are its non-blank lines with the white space at both
  ends removed. A log with fewer than 10 lines fails on the count, whatever its lines. A
  log with at least 10 lines of which one does not match the pattern fails, and the line
  reported is the first that does not match, with its index counted from 1. A log with a
  line that does not match fails in every case. A log with at least 10 lines that all
  match, and with every expected entry as a part of its raw content, passes, whatever
  other entries it has.
\<close>

theorem validate_merge_timeline_checks:
  "(length (timeline_lines content) < min_lines \<longrightarrow>
      validate_merge_timeline content
        = (False, [Too_few_lines (length (timeline_lines content))])) \<and>
   (min_lines \<le> length (timeline_lines content) \<and> i < length (timeline_lines content) \<and>
    \<not> re_match line_pattern (timeline_lines content ! i) \<and>
    (\<forall>j<i. re_match line_pattern (timeline_lines content ! j)) \<longrightarrow>
      validate_merge_timeline content
        = (False, [Line_count_ok (length (timeline_lines content)),
                   Line_format (Suc i) (timeline_lines content ! i), Line_format_hint])) \<and>
   ((\<exists>l \<in> set (timeline_lines content). \<not> re_match line_pattern l) \<longrightarrow>
      \<not> fst (validate_merge_timeline content)) \<and>
   (min_lines \<le> length (timeline_lines content) \<and>
    (\<forall>l \<in> set (timeline_lines content). re_match line_pattern l) \<and>
    (\<forall>e \<in> set expected_entries. sublist e content) \<longrightarrow>
      validate_merge_timeline content
        = (True, [Line_count_ok (length (timeline_lines content)), Line_format_ok,
                  Entries_ok]))"
  using validate_merge_timeline_too_few [of content]
    validate_merge_timeline_bad_line [of content i]
    validate_merge_timeline_some_bad [of content]
    validate_merge_timeline_pass [of content]
  by blast

theorem validate_merge_timeline_checks_witness:
  "length (timeline_lines ''2025-08-04 | no sha here'') < min_lines \<and>
   validate_merge_timeline ''2025-08-04 | no sha here'' = (False, [Too_few_lines 1]) \<and>
   min_lines \<le> length (timeline_lines bad_timeline) \<and>
   \<not> re_match line_pattern (timeline_lines bad_timeline ! 3) \<and>
   validate_merge_timeline bad_timeline
     = (False, [Line_count_ok 12, Line_format 4 ''2025-08-04 | no sha here'', Line_format_hint]) \<and>
   min_lines \<le> length (timeline_lines good_timeline) \<and>
   list_all (re_match line_pattern) (timeline_lines good_timeline) \<and>
   list_all (\<lambda>e. sublist e good_timeline) expected_entries \<and>
   validate_merge_timeline good_timeline
     = (True, [Line_count_ok 11, Line_format_ok, Entries_ok])"
proof -
  have one: "timeline_lines ''2025-08-04 | no sha here'' = [''2025-08-04 | no sha here'']"
    by code_simp
  have a: "length (timeline_lines ''2025-08-04 | no sha here'') < min_lines \<and>
      validate_merge_timeline ''2025-08-04 | no sha here'' = (False, [Too_few_lines 1])"
    using validate_merge_timeline_checks [of "''2025-08-04 | no sha here''" 0]
    by (simp add: one min_lines_def)
  have b: "min_lines \<le> length (timeline_lines bad_timeline) \<and>
      \<not> re_match line_pattern (timeline_lines bad_timeline ! 3) \<and>
      validate_merge_timeline bad_timeline
        = (False, [Line_count_ok 12, Line_format 4 ''2025-08-04 | no sha here'',
                   Line_format_hint])"
    using validate_merge_timeline_checks [of bad_timeline 3]
      bad_timeline_first_lines bad_timeline_fourth_line bad_timeline_match
    by (simp add: min_lines_def)
  have len: "length (timeline_lines good_timeline) = 11"
    by (simp add: good_timeline_lines expected_entries_def other_entries_def)
  have gm: "list_all (re_match line_pattern) (timeline_lines good_timeline)"
    using good_timeline_match by (simp only: good_timeline_lines)
  have c: "min_lines \<le> length (timeline_lines good_timeline) \<and>
      validate_merge_timeline good_timeline
        = (True, [Line_count_ok 11, Line_format_ok, Entries_ok])"
    using validate_merge_timeline_checks [of good_timeline 0] gm good_timeline_entries
    by (simp add: len min_lines_def list_all_iff)
  from a b c gm good_timeline_entries show ?thesis by simp
qed

subsection \<open>The router\<close>

text \<open>
  C10. For an artifact name that is not one of the three configured names, the router
  returns true for any content and prints only the warning that the file is skipped.
\<close>

theorem validate_artifact_unsupported:
  assumes "artifact_name \<notin> set (map art_name ARTIFACTS)"
  shows "validate_artifact w content artifact_name
           = Inr (True, [Main (Unsupported artifact_name)])"
  using assms by (simp add: validate_artifact_def ARTIFACTS_def)

theorem validate_artifact_unsupported_witness:
  "''README.md'' \<notin> set (map art_name ARTIFACTS) \<and>
   validate_artifact html_world ''# harmony'' ''README.md''
     = Inr (True, [Main (Unsupported ''README.md'')])"
  using validate_artifact_unsupported [of "''README.md''" html_world "''# harmony''"]
  by (simp add: ARTIFACTS_def)

end
